theory Spec2Isabelle
  imports Complex_Main
begin

section \<open>The cart store\<close>

text \<open>
  The store of \<^verbatim>\<open>src/frontend/app/payment-cancel.tsx\<close>, lines 176-271 (the second
  document of that file). A TypeScript \<^verbatim>\<open>number\<close> that counts units (\<^verbatim>\<open>quantity\<close>,
  \<^verbatim>\<open>inventory\<close>) is an \<^typ>\<open>int\<close>: the store never checks a sign, so negative
  quantities stay representable. The unit price is a \<^typ>\<open>real\<close>; the rounding of IEEE
  doubles, \<^verbatim>\<open>NaN\<close> and fractional counts are outside this model. Strings are compared
  with \<^verbatim>\<open>===\<close>, which is equality.
\<close>

record Product =
  id_product :: string
  name_product :: string
  description :: string
  price :: real
  image_base64 :: string
  inventory :: int

record CartItem =
  product :: Product
  quantity :: int

text \<open>The data part of the store's state; \<^verbatim>\<open>set\<close> merges a partial state into it.\<close>

record CartStore =
  cart :: "CartItem list"

definition initialCartStore :: CartStore where
  "initialCartStore = \<lparr>cart = []\<rparr>"

text \<open>\<^verbatim>\<open>item => item.product.id === productId\<close>, the predicate of every search.\<close>

definition hasId :: "string \<Rightarrow> CartItem \<Rightarrow> bool" where
  "hasId productId item = (id_product (product item) = productId)"

definition addToCart :: "Product \<Rightarrow> CartStore \<Rightarrow> CartStore" where
  "addToCart p state =
     (case find (hasId (id_product p)) (cart state) of
        Some existingItem \<Rightarrow>
          if quantity existingItem \<ge> inventory p then state
          else state\<lparr>cart :=
                 map (\<lambda>item. if hasId (id_product p) item
                              then item\<lparr>quantity := quantity item + 1\<rparr>
                              else item) (cart state)\<rparr>
      | None \<Rightarrow>
          if inventory p = 0 then state
          else state\<lparr>cart := cart state @ [\<lparr>product = p, quantity = 1\<rparr>]\<rparr>)"

definition removeFromCart :: "string \<Rightarrow> CartStore \<Rightarrow> CartStore" where
  "removeFromCart productId state =
     state\<lparr>cart := filter (\<lambda>item. \<not> hasId productId item) (cart state)\<rparr>"

definition updateCartQuantity :: "string \<Rightarrow> int \<Rightarrow> CartStore \<Rightarrow> CartStore" where
  "updateCartQuantity productId newQuantity state =
     (if newQuantity = 0 then removeFromCart productId state
      else
        (case map_option product (find (hasId productId) (cart state)) of
           Some p \<Rightarrow>
             if newQuantity > inventory p then state
             else state\<lparr>cart :=
                    map (\<lambda>item. if hasId productId item
                                 then item\<lparr>quantity := newQuantity\<rparr>
                                 else item) (cart state)\<rparr>
         | None \<Rightarrow>
             state\<lparr>cart :=
               map (\<lambda>item. if hasId productId item
                            then item\<lparr>quantity := newQuantity\<rparr>
                            else item) (cart state)\<rparr>))"

definition getCartTotal :: "CartStore \<Rightarrow> real" where
  "getCartTotal state =
     foldl (\<lambda>sum item. sum + price (product item) * of_int (quantity item)) 0 (cart state)"

definition getCartItemCount :: "CartStore \<Rightarrow> int" where
  "getCartItemCount state = foldl (\<lambda>sum item. sum + quantity item) 0 (cart state)"

definition clearCart :: "CartStore \<Rightarrow> CartStore" where
  "clearCart state = state\<lparr>cart := []\<rparr>"

subsection \<open>Sequences of calls\<close>

datatype CartAction =
    AddToCart Product
  | RemoveFromCart string
  | UpdateCartQuantity string int
  | ClearCart

fun cartStep :: "CartAction \<Rightarrow> CartStore \<Rightarrow> CartStore" where
  "cartStep (AddToCart p) state = addToCart p state"
| "cartStep (RemoveFromCart productId) state = removeFromCart productId state"
| "cartStep (UpdateCartQuantity productId q) state = updateCartQuantity productId q state"
| "cartStep ClearCart state = clearCart state"

fun cartRun :: "CartAction list \<Rightarrow> CartStore \<Rightarrow> CartStore" where
  "cartRun [] state = state"
| "cartRun (a # as) state = cartRun as (cartStep a state)"

text \<open>The bound the data model asks of every line of the cart.\<close>

definition quantityBounds :: "CartStore \<Rightarrow> bool" where
  "quantityBounds state =
     list_all (\<lambda>item. 1 \<le> quantity item \<and> quantity item \<le> inventory (product item))
       (cart state)"

text \<open>One line per product identifier.\<close>

definition uniqueIds :: "CartStore \<Rightarrow> bool" where
  "uniqueIds state = distinct (map (\<lambda>item. id_product (product item)) (cart state))"

text \<open>
  The calls a sequence may contain when every call is one the cart screens can make with
  consistent catalogue data: a quantity passed to \<open>updateCartQuantity\<close> is not negative,
  and a record passed to \<open>addToCart\<close> carries a non-negative inventory that does not
  exceed the inventory of the snapshot already stored for its id, if there is one.
\<close>

fun admissible :: "CartAction \<Rightarrow> CartStore \<Rightarrow> bool" where
  "admissible (AddToCart p) state =
     (0 \<le> inventory p \<and>
      (case find (hasId (id_product p)) (cart state) of
         Some existingItem \<Rightarrow> inventory p \<le> inventory (product existingItem)
       | None \<Rightarrow> True))"
| "admissible (UpdateCartQuantity productId q) state = (0 \<le> q)"
| "admissible (RemoveFromCart productId) state = True"
| "admissible ClearCart state = True"

fun admissibleRun :: "CartAction list \<Rightarrow> CartStore \<Rightarrow> bool" where
  "admissibleRun [] state = True"
| "admissibleRun (a # as) state = (admissible a state \<and> admissibleRun as (cartStep a state))"

text \<open>
  The stock figures a cart can hold: a product enters the catalogue through the form of
  \<^verbatim>\<open>src/frontend/app/admin/products.tsx\<close>, which refuses an inventory that is not a
  number or is below 0 (lines 131-141), so every snapshot carries a non-negative
  inventory.
\<close>

definition nonNegativeStock :: "CartStore \<Rightarrow> bool" where
  "nonNegativeStock state = list_all (\<lambda>item. 0 \<le> inventory (product item)) (cart state)"

text \<open>A catalogue record with the given id, unit price and stock, for concrete carts.\<close>

definition mkProduct :: "string \<Rightarrow> real \<Rightarrow> int \<Rightarrow> Product" where
  "mkProduct productId unitPrice stock =
     \<lparr>id_product = productId, name_product = [], description = [], price = unitPrice,
      image_base64 = [], inventory = stock\<rparr>"

section \<open>The auth store\<close>

text \<open>
  The store of \<^verbatim>\<open>src/unnamed/part_001\<close>. Its actions are \<^verbatim>\<open>async\<close>: each awaits one
  call of the device's key/value storage inside \<^verbatim>\<open>try\<close>, and on success calls \<^verbatim>\<open>set\<close>
  once. An action is modelled as run to completion; the interleaving of two pending
  actions is outside this model.
\<close>

record User =
  id_user :: string
  name_user :: string
  phone :: string

record Admin =
  id_admin :: string
  username :: string
  full_name :: string

text \<open>The role tag \<^verbatim>\<open>'customer' | 'admin'\<close> of the in-memory state.\<close>

datatype UserType = CustomerT | AdminT

record AuthStore =
  isLoggedIn :: bool
  user :: "User option"
  admin :: "Admin option"
  token :: "string option"
  userType :: "UserType option"

definition initialAuthStore :: AuthStore where
  "initialAuthStore =
     \<lparr>isLoggedIn = False, user = None, admin = None, token = None, userType = None\<rparr>"

subsection \<open>The platform the store calls\<close>

text \<open>
  \<^verbatim>\<open>AsyncStorage\<close> and \<^verbatim>\<open>JSON\<close> are not code of the repository, so they are
  parameters. A storage call takes the contents of the device storage and gives back the
  settled promise and the contents afterwards; nothing is assumed about what a rejected
  call leaves behind. \<^verbatim>\<open>JSON.parse\<close> either throws (\<open>Inl\<close>) or yields \<^verbatim>\<open>null\<close>
  (\<open>Inr None\<close>) or a value that the store keeps as the record (\<open>Inr (Some r)\<close>).
\<close>

type_synonym Storage = "string \<Rightarrow> string option"

datatype 'a Promise = Fulfilled 'a | Rejected string

record Platform =
  multiSet :: "(string \<times> string) list \<Rightarrow> Storage \<Rightarrow> unit Promise \<times> Storage"
  multiRemove :: "string list \<Rightarrow> Storage \<Rightarrow> unit Promise \<times> Storage"
  multiGet :: "string list \<Rightarrow> Storage \<Rightarrow> (string \<times> string option) list Promise \<times> Storage"
  stringifyUser :: "User \<Rightarrow> string"
  stringifyAdmin :: "Admin \<Rightarrow> string"
  parseUser :: "string \<Rightarrow> string + User option"
  parseAdmin :: "string \<Rightarrow> string + Admin option"

text \<open>The store, the device storage beside it, and what \<^verbatim>\<open>console.error\<close> printed.\<close>

record World =
  store :: AuthStore
  storage :: Storage
  console :: "(string \<times> string) list"

definition initialWorld :: "Storage \<Rightarrow> World" where
  "initialWorld disk = \<lparr>store = initialAuthStore, storage = disk, console = []\<rparr>"


definition userEntries :: "Platform \<Rightarrow> string \<Rightarrow> User \<Rightarrow> (string \<times> string) list" where
  "userEntries pf tok u =
     [(''auth_token'', tok), (''user_data'', stringifyUser pf u), (''user_type'', ''customer'')]"

definition adminEntries :: "Platform \<Rightarrow> string \<Rightarrow> Admin \<Rightarrow> (string \<times> string) list" where
  "adminEntries pf tok a =
     [(''auth_token'', tok), (''admin_data'', stringifyAdmin pf a), (''user_type'', ''admin'')]"

subsection \<open>The actions\<close>

definition loginUser :: "Platform \<Rightarrow> string \<Rightarrow> User \<Rightarrow> World \<Rightarrow> World" where
  "loginUser pf tok u w =
     (case multiSet pf (userEntries pf tok u) (storage w) of
        (Fulfilled _, disk) \<Rightarrow>
          w\<lparr>storage := disk,
            store := (store w)\<lparr>isLoggedIn := True, token := Some tok, user := Some u,
                               admin := None, userType := Some CustomerT\<rparr>\<rparr>
      | (Rejected err, disk) \<Rightarrow>
          w\<lparr>storage := disk,
            console := console w @ [(''Error saving user auth data:'', err)]\<rparr>)"

definition loginAdmin :: "Platform \<Rightarrow> string \<Rightarrow> Admin \<Rightarrow> World \<Rightarrow> World" where
  "loginAdmin pf tok a w =
     (case multiSet pf (adminEntries pf tok a) (storage w) of
        (Fulfilled _, disk) \<Rightarrow>
          w\<lparr>storage := disk,
            store := (store w)\<lparr>isLoggedIn := True, token := Some tok, admin := Some a,
                               user := None, userType := Some AdminT\<rparr>\<rparr>
      | (Rejected err, disk) \<Rightarrow>
          w\<lparr>storage := disk,
            console := console w @ [(''Error saving admin auth data:'', err)]\<rparr>)"






definition isCustomer :: "AuthStore \<Rightarrow> bool" where
  "isCustomer state = (isLoggedIn state \<and> userType state = Some CustomerT)"

definition isAdmin :: "AuthStore \<Rightarrow> bool" where
  "isAdmin state = (isLoggedIn state \<and> userType state = Some AdminT)"

subsection \<open>Sequences of actions\<close>









subsection \<open>Two platforms to run the store on\<close>

text \<open>
  A storage that keeps what it is given and never fails, and a storage whose every call
  is rejected. Their codec stands in for \<^verbatim>\<open>JSON\<close>: it writes the fields of a record one
  after the other, each behind its length in \<open>+\<close> signs and a bar, reads a record back
  as it was written, reads the text \<^verbatim>\<open>null\<close> as \<^verbatim>\<open>null\<close>, and throws on any other
  text. The platforms instantiate the theorems below, which hold for every platform.
\<close>

fun encodeFields :: "string list \<Rightarrow> string" where
  "encodeFields [] = []"
| "encodeFields (f # fs) = replicate (length f) CHR ''+'' @ CHR ''|'' # f @ encodeFields fs"

fun decodeFields :: "nat \<Rightarrow> string \<Rightarrow> string list option" where
  "decodeFields 0 s = (if s = [] then Some [] else None)"
| "decodeFields (Suc k) s =
     (let n = length (takeWhile (\<lambda>c. c = CHR ''+'') s) in
      case drop n s of
        [] \<Rightarrow> None
      | c # body \<Rightarrow>
          if c = CHR ''|'' \<and> n \<le> length body
          then map_option (Cons (take n body)) (decodeFields k (drop n body))
          else None)"

definition standInStringifyUser :: "User \<Rightarrow> string" where
  "standInStringifyUser u = encodeFields [id_user u, name_user u, phone u]"

definition standInParseUser :: "string \<Rightarrow> string + User option" where
  "standInParseUser s =
     (if s = ''null'' then Inr None
      else case decodeFields (Suc (Suc (Suc 0))) s of
             Some [i, n, p] \<Rightarrow> Inr (Some \<lparr>id_user = i, name_user = n, phone = p\<rparr>)
           | _ \<Rightarrow> Inl ''SyntaxError'')"

definition standInStringifyAdmin :: "Admin \<Rightarrow> string" where
  "standInStringifyAdmin a = encodeFields [id_admin a, username a, full_name a]"

definition standInParseAdmin :: "string \<Rightarrow> string + Admin option" where
  "standInParseAdmin s =
     (if s = ''null'' then Inr None
      else case decodeFields (Suc (Suc (Suc 0))) s of
             Some [i, n, f] \<Rightarrow> Inr (Some \<lparr>id_admin = i, username = n, full_name = f\<rparr>)
           | _ \<Rightarrow> Inl ''SyntaxError'')"

definition keepingPlatform :: Platform where
  "keepingPlatform =
     \<lparr>multiSet = (\<lambda>kvs disk. (Fulfilled (), foldl (\<lambda>d kv. d(fst kv \<mapsto> snd kv)) disk kvs)),
      multiRemove = (\<lambda>ks disk. (Fulfilled (), foldl (\<lambda>d k. d(k := None)) disk ks)),
      multiGet = (\<lambda>ks disk. (Fulfilled (map (\<lambda>k. (k, disk k)) ks), disk)),
      stringifyUser = standInStringifyUser,
      stringifyAdmin = standInStringifyAdmin,
      parseUser = standInParseUser,
      parseAdmin = standInParseAdmin\<rparr>"

definition rejectingPlatform :: Platform where
  "rejectingPlatform =
     keepingPlatform
       \<lparr>multiSet := (\<lambda>kvs disk. (Rejected ''storage unavailable'', disk)),
        multiRemove := (\<lambda>ks disk. (Rejected ''storage unavailable'', disk)),
        multiGet := (\<lambda>ks disk. (Rejected ''storage unavailable'', disk))\<rparr>"

section \<open>Properties of the cart store\<close>

subsection \<open>Searching, mapping and summing over the lines\<close>

lemma foldl_add_sum_list:
  "foldl (\<lambda>s x. s + f x) a xs = (a::'a::comm_monoid_add) + sum_list (map f xs)"
  by (induction xs arbitrary: a) (simp_all add: add.assoc)

lemma getCartItemCount_sum:
  "getCartItemCount state = sum_list (map quantity (cart state))"
  by (simp add: getCartItemCount_def foldl_add_sum_list)

lemma getCartTotal_sum:
  "getCartTotal state =
     sum_list (map (\<lambda>item. price (product item) * of_int (quantity item)) (cart state))"
  by (simp add: getCartTotal_def foldl_add_sum_list)

lemma find_hasId_None:
  "find (hasId productId) xs = None \<longleftrightarrow> (\<forall>item \<in> set xs. \<not> hasId productId item)"
  by (auto simp: find_None_iff)

lemma find_hasId_Some:
  "find (hasId productId) xs = Some item \<Longrightarrow> item \<in> set xs \<and> hasId productId item"
  by (auto simp: find_Some_iff)

lemma map_unchanged:
  "\<forall>item \<in> set xs. \<not> P item \<Longrightarrow> map (\<lambda>item. if P item then f item else item) xs = xs"
  by (induction xs) simp_all

lemma filter_unchanged:
  "\<forall>item \<in> set xs. \<not> P item \<Longrightarrow> filter (\<lambda>item. \<not> P item) xs = xs"
  by (induction xs) simp_all

lemma unique_line:
  assumes "uniqueIds state" "x \<in> set (cart state)" "y \<in> set (cart state)"
    "hasId productId x" "hasId productId y"
  shows "x = y"
proof -
  from assms(1) have "inj_on (\<lambda>item. id_product (product item)) (set (cart state))"
    by (simp add: uniqueIds_def distinct_map)
  with assms(2-5) show ?thesis
    by (auto simp: hasId_def dest: inj_onD)
qed

lemma count_after_update:
  "sum_list (map quantity (map (\<lambda>line. if P line then line\<lparr>quantity := q\<rparr> else line) xs))
     = sum_list (map quantity (filter (\<lambda>line. \<not> P line) xs)) + q * int (length (filter P xs))"
  by (induction xs) (simp_all add: algebra_simps)

lemma total_after_increment:
  "sum_list (map (\<lambda>line. price (product line) * of_int (quantity line))
       (map (\<lambda>line. if P line then line\<lparr>quantity := quantity line + 1\<rparr> else line) xs))
     = sum_list (map (\<lambda>line. price (product line) * of_int (quantity line)) xs)
       + sum_list (map (\<lambda>line. price (product line)) (filter P xs))"
  by (induction xs) (simp_all add: algebra_simps)

lemma find_after_quantity_map:
  "find (hasId productId) (map (\<lambda>line. if P line then line\<lparr>quantity := g line\<rparr> else line) xs)
     = map_option (\<lambda>line. if P line then line\<lparr>quantity := g line\<rparr> else line)
         (find (hasId productId) xs)"
  by (induction xs) (simp_all add: hasId_def)

lemma find_after_remove:
  "find (hasId productId) (filter (\<lambda>line. \<not> hasId other line) xs)
     = (if productId = other then None else find (hasId productId) xs)"
  by (induction xs) (auto simp: hasId_def [abs_def])

lemma find_after_append:
  "find P xs = Some x \<Longrightarrow> find P (xs @ ys) = Some x"
  by (induction xs) (simp_all split: if_splits)

subsection \<open>Every call keeps the bounds, under the admissible calls\<close>

lemma addToCart_keeps:
  assumes inv: "quantityBounds state" "uniqueIds state"
    and adm: "admissible (AddToCart p) state"
  shows "quantityBounds (addToCart p state) \<and> uniqueIds (addToCart p state)"
proof (cases "find (hasId (id_product p)) (cart state)")
  case None
  then have fresh: "\<forall>item \<in> set (cart state). id_product (product item) \<noteq> id_product p"
    by (simp add: find_hasId_None hasId_def)
  from adm have "0 \<le> inventory p" by simp
  with None inv fresh show ?thesis
    by (auto simp: addToCart_def quantityBounds_def uniqueIds_def)
next
  case (Some existingItem)
  then have ex: "existingItem \<in> set (cart state)" "hasId (id_product p) existingItem"
    using find_hasId_Some by blast+
  from adm Some have le: "inventory p \<le> inventory (product existingItem)" by simp
  show ?thesis
  proof (cases "quantity existingItem \<ge> inventory p")
    case True
    with Some inv show ?thesis by (simp add: addToCart_def)
  next
    case False
    have same: "item = existingItem"
      if "item \<in> set (cart state)" "hasId (id_product p) item" for item
      using unique_line [OF inv(2) that(1) ex(1) that(2) ex(2)] .
    have ids: "map (\<lambda>item. id_product (product item))
                 (map (\<lambda>item. if hasId (id_product p) item
                        then item\<lparr>quantity := quantity item + 1\<rparr> else item) (cart state))
               = map (\<lambda>item. id_product (product item)) (cart state)"
      by (simp add: comp_def if_distrib [of "\<lambda>item. id_product (product item)"] cong: if_cong)
    have cartEq: "cart (addToCart p state) =
        map (\<lambda>item. if hasId (id_product p) item
                     then item\<lparr>quantity := quantity item + 1\<rparr> else item) (cart state)"
      using Some False by (simp add: addToCart_def)
    have "1 \<le> quantity x \<and> quantity x \<le> inventory (product x)"
      if "x \<in> set (cart (addToCart p state))" for x
    proof -
      from that obtain item where item: "item \<in> set (cart state)"
        and x: "x = (if hasId (id_product p) item
                     then item\<lparr>quantity := quantity item + 1\<rparr> else item)"
        unfolding cartEq by auto
      from inv(1) item
      have old: "1 \<le> quantity item" "quantity item \<le> inventory (product item)"
        by (auto simp: quantityBounds_def list_all_iff)
      show ?thesis
      proof (cases "hasId (id_product p) item")
        case True
        then have "item = existingItem" using item same by blast
        with True x old False le show ?thesis by simp
      next
        case False
        with x old show ?thesis by simp
      qed
    qed
    then have "quantityBounds (addToCart p state)"
      by (simp add: quantityBounds_def list_all_iff)
    moreover have "uniqueIds (addToCart p state)"
      using inv(2) by (simp add: uniqueIds_def cartEq ids del: map_map)
    ultimately show ?thesis by simp
  qed
qed

lemma removeFromCart_keeps:
  assumes "quantityBounds state" "uniqueIds state"
  shows "quantityBounds (removeFromCart productId state) \<and> uniqueIds (removeFromCart productId state)"
  using assms
  by (simp add: removeFromCart_def quantityBounds_def uniqueIds_def list_all_iff distinct_map_filter)

lemma updateCartQuantity_keeps:
  assumes inv: "quantityBounds state" "uniqueIds state"
    and adm: "0 \<le> q"
  shows "quantityBounds (updateCartQuantity productId q state)
       \<and> uniqueIds (updateCartQuantity productId q state)"
proof (cases "q = 0")
  case True
  with inv show ?thesis
    using removeFromCart_keeps [of state productId] by (simp add: updateCartQuantity_def)
next
  case nz: False
  show ?thesis
  proof (cases "find (hasId productId) (cart state)")
    case None
    then have "\<forall>item \<in> set (cart state). \<not> hasId productId item"
      by (simp add: find_hasId_None)
    with None nz inv show ?thesis
      by (simp add: updateCartQuantity_def map_unchanged)
  next
    case (Some existingItem)
    then have ex: "existingItem \<in> set (cart state)" "hasId productId existingItem"
      using find_hasId_Some by blast+
    show ?thesis
    proof (cases "q > inventory (product existingItem)")
      case True
      with Some nz inv show ?thesis by (simp add: updateCartQuantity_def)
    next
      case False
      have cartEq: "cart (updateCartQuantity productId q state) =
          map (\<lambda>item. if hasId productId item then item\<lparr>quantity := q\<rparr> else item) (cart state)"
        using Some nz False by (simp add: updateCartQuantity_def)
      have ids: "map (\<lambda>item. id_product (product item))
                   (map (\<lambda>item. if hasId productId item
                          then item\<lparr>quantity := q\<rparr> else item) (cart state))
                 = map (\<lambda>item. id_product (product item)) (cart state)"
        by (simp add: comp_def if_distrib [of "\<lambda>item. id_product (product item)"] cong: if_cong)
      have "1 \<le> quantity x \<and> quantity x \<le> inventory (product x)"
        if "x \<in> set (cart (updateCartQuantity productId q state))" for x
      proof -
        from that obtain item where item: "item \<in> set (cart state)"
          and x: "x = (if hasId productId item then item\<lparr>quantity := q\<rparr> else item)"
          unfolding cartEq by auto
        from inv(1) item
        have old: "1 \<le> quantity item" "quantity item \<le> inventory (product item)"
          by (auto simp: quantityBounds_def list_all_iff)
        show ?thesis
        proof (cases "hasId productId item")
          case True
          then have "item = existingItem"
            using unique_line [OF inv(2) item ex(1) True ex(2)] by simp
          with True x False nz adm show ?thesis by simp
        next
          case False
          with x old show ?thesis by simp
        qed
      qed
      then have "quantityBounds (updateCartQuantity productId q state)"
        by (simp add: quantityBounds_def list_all_iff)
      moreover have "uniqueIds (updateCartQuantity productId q state)"
        using inv(2) by (simp add: uniqueIds_def cartEq ids del: map_map)
      ultimately show ?thesis by simp
    qed
  qed
qed

lemma cartStep_keeps:
  assumes "quantityBounds state" "uniqueIds state" "admissible a state"
  shows "quantityBounds (cartStep a state) \<and> uniqueIds (cartStep a state)"
proof (cases a)
  case (AddToCart p)
  with assms show ?thesis using addToCart_keeps [of state p] by simp
next
  case (RemoveFromCart productId)
  with assms show ?thesis using removeFromCart_keeps [of state productId] by simp
next
  case (UpdateCartQuantity productId q)
  with assms show ?thesis using updateCartQuantity_keeps [of state q productId] by simp
next
  case ClearCart
  then show ?thesis by (simp add: clearCart_def quantityBounds_def uniqueIds_def)
qed

lemma cartRun_keeps:
  "quantityBounds state \<Longrightarrow> uniqueIds state \<Longrightarrow> admissibleRun acts state \<Longrightarrow>
     quantityBounds (cartRun acts state) \<and> uniqueIds (cartRun acts state)"
proof (induction acts arbitrary: state)
  case Nil
  then show ?case by simp
next
  case (Cons a acts)
  from Cons.prems have "quantityBounds (cartStep a state) \<and> uniqueIds (cartStep a state)"
    using cartStep_keeps [of state a] by simp
  moreover from Cons.prems have "admissibleRun acts (cartStep a state)" by simp
  ultimately show ?case using Cons.IH [of "cartStep a state"] by simp
qed

subsection \<open>Every call keeps the stored product records\<close>

lemma addToCart_keeps_snapshot:
  assumes "find (hasId productId) (cart state) = Some item"
    and "find (hasId productId) (cart (addToCart p state)) = Some item'"
  shows "product item' = product item"
proof (cases "find (hasId (id_product p)) (cart state)")
  case None
  with assms show ?thesis
    by (auto simp: addToCart_def find_after_append split: if_splits)
next
  case (Some existingItem)
  with assms show ?thesis
    by (auto simp: addToCart_def find_after_quantity_map split: if_splits)
qed

lemma removeFromCart_keeps_snapshot:
  assumes "find (hasId productId) (cart state) = Some item"
    and "find (hasId productId) (cart (removeFromCart other state)) = Some item'"
  shows "product item' = product item"
  using assms by (auto simp: removeFromCart_def find_after_remove split: if_splits)

lemma updateCartQuantity_keeps_snapshot:
  assumes "find (hasId productId) (cart state) = Some item"
    and "find (hasId productId) (cart (updateCartQuantity other q state)) = Some item'"
  shows "product item' = product item"
proof (cases "q = 0")
  case True
  with assms show ?thesis
    using removeFromCart_keeps_snapshot [of productId state item other item']
    by (simp add: updateCartQuantity_def)
next
  case False
  with assms show ?thesis
    by (auto simp: updateCartQuantity_def find_after_quantity_map
        split: option.splits if_splits)
qed

lemma cartStep_keeps_snapshot:
  assumes "find (hasId productId) (cart state) = Some item"
    and "find (hasId productId) (cart (cartStep a state)) = Some item'"
  shows "product item' = product item"
proof (cases a)
  case (AddToCart p)
  with assms show ?thesis using addToCart_keeps_snapshot by simp
next
  case (RemoveFromCart other)
  with assms show ?thesis using removeFromCart_keeps_snapshot by simp
next
  case (UpdateCartQuantity other q)
  with assms show ?thesis using updateCartQuantity_keeps_snapshot by simp
next
  case ClearCart
  with assms show ?thesis by (simp add: clearCart_def)
qed

subsection \<open>The quantity bounds (C1)\<close>

text \<open>
  Claim C1, as stated: from the empty cart, after any sequence of \<open>addToCart\<close>,
  \<open>removeFromCart\<close>, \<open>updateCartQuantity\<close> and \<open>clearCart\<close> calls, every line has
  \<open>1 \<le> quantity \<le> inventory\<close> of its stored product snapshot. It fails: \<open>addToCart\<close>
  compares the stored quantity with the inventory of the record it is called with, so a
  second call with a record of the same id and a larger inventory (the catalogue was
  fetched again) raises the quantity above the inventory of the snapshot, which stays 1.
\<close>

theorem cart_quantity_bounds_counterexample:
  "\<not> quantityBounds (cartRun
       [AddToCart (mkProduct ''p1'' 9.99 1), AddToCart (mkProduct ''p1'' 9.99 5)]
       initialCartStore)"
  by (simp add: initialCartStore_def addToCart_def hasId_def mkProduct_def quantityBounds_def)

text \<open>
  Claim C1, amended: from the empty cart, after any sequence of calls in which every
  quantity passed to \<open>updateCartQuantity\<close> is at least 0 and every record passed to
  \<open>addToCart\<close> has an inventory that is at least 0 and at most the inventory of the
  snapshot already stored for its id (if any), every line has
  \<open>1 \<le> quantity \<le> inventory\<close> of its stored snapshot, and no two lines share an id.
\<close>

theorem cart_quantity_bounds_admissible:
  "admissibleRun acts initialCartStore \<Longrightarrow>
     quantityBounds (cartRun acts initialCartStore) \<and> uniqueIds (cartRun acts initialCartStore)"
  by (rule cartRun_keeps) (simp_all add: initialCartStore_def quantityBounds_def uniqueIds_def)

theorem cart_quantity_bounds_admissible_witness:
  "admissibleRun
     [AddToCart (mkProduct ''p1'' 9.99 3), AddToCart (mkProduct ''p1'' 9.99 3),
      AddToCart (mkProduct ''p2'' 5 1), UpdateCartQuantity ''p1'' 3,
      UpdateCartQuantity ''p2'' 0] initialCartStore
   \<and> cart (cartRun
     [AddToCart (mkProduct ''p1'' 9.99 3), AddToCart (mkProduct ''p1'' 9.99 3),
      AddToCart (mkProduct ''p2'' 5 1), UpdateCartQuantity ''p1'' 3,
      UpdateCartQuantity ''p2'' 0] initialCartStore)
     = [\<lparr>product = mkProduct ''p1'' 9.99 3, quantity = 3\<rparr>]
   \<and> quantityBounds (cartRun
     [AddToCart (mkProduct ''p1'' 9.99 3), AddToCart (mkProduct ''p1'' 9.99 3),
      AddToCart (mkProduct ''p2'' 5 1), UpdateCartQuantity ''p1'' 3,
      UpdateCartQuantity ''p2'' 0] initialCartStore)"
proof -
  have adm: "admissibleRun
     [AddToCart (mkProduct ''p1'' 9.99 3), AddToCart (mkProduct ''p1'' 9.99 3),
      AddToCart (mkProduct ''p2'' 5 1), UpdateCartQuantity ''p1'' 3,
      UpdateCartQuantity ''p2'' 0] initialCartStore"
    by (simp add: initialCartStore_def addToCart_def updateCartQuantity_def removeFromCart_def
        hasId_def mkProduct_def)
  have run: "cart (cartRun
     [AddToCart (mkProduct ''p1'' 9.99 3), AddToCart (mkProduct ''p1'' 9.99 3),
      AddToCart (mkProduct ''p2'' 5 1), UpdateCartQuantity ''p1'' 3,
      UpdateCartQuantity ''p2'' 0] initialCartStore)
     = [\<lparr>product = mkProduct ''p1'' 9.99 3, quantity = 3\<rparr>]"
    by (simp add: initialCartStore_def addToCart_def updateCartQuantity_def removeFromCart_def
        hasId_def mkProduct_def)
  from adm run cart_quantity_bounds_admissible [OF adm] show ?thesis by simp
qed

subsection \<open>Updating a quantity (C3, C4, C9)\<close>

lemma updateCartQuantity_cases:
  "(find (hasId productId) (cart state) = None \<longrightarrow>
      updateCartQuantity productId q state = state) \<and>
   (\<forall>item. find (hasId productId) (cart state) = Some item \<and> q \<noteq> 0
        \<and> q > inventory (product item) \<longrightarrow>
      updateCartQuantity productId q state = state) \<and>
   (\<forall>item. find (hasId productId) (cart state) = Some item \<and> q \<noteq> 0
        \<and> q \<le> inventory (product item) \<longrightarrow>
      cart (updateCartQuantity productId q state) =
        map (\<lambda>line. if hasId productId line then line\<lparr>quantity := q\<rparr> else line) (cart state))"
proof (intro conjI allI impI)
  assume none: "find (hasId productId) (cart state) = None"
  then have no: "\<forall>item \<in> set (cart state). \<not> hasId productId item"
    by (simp add: find_hasId_None)
  show "updateCartQuantity productId q state = state"
    using none no
    by (simp add: updateCartQuantity_def removeFromCart_def map_unchanged filter_unchanged)
next
  fix item
  assume "find (hasId productId) (cart state) = Some item \<and> q \<noteq> 0
        \<and> q > inventory (product item)"
  then show "updateCartQuantity productId q state = state"
    by (simp add: updateCartQuantity_def)
next
  fix item
  assume "find (hasId productId) (cart state) = Some item \<and> q \<noteq> 0
        \<and> q \<le> inventory (product item)"
  then show "cart (updateCartQuantity productId q state) =
        map (\<lambda>line. if hasId productId line then line\<lparr>quantity := q\<rparr> else line) (cart state)"
    by (simp add: updateCartQuantity_def)
qed

text \<open>
  Claim C3. For every cart state (every stored inventory non-negative, as the catalogue
  guarantees) \<open>updateCartQuantity id q\<close> behaves as follows: if no line has the id, the
  cart is unchanged; if the store finds a line with the id and \<open>q\<close> exceeds the
  inventory of that line's product snapshot, the cart is unchanged, so the prior quantity
  is retained; otherwise, when \<open>q \<noteq> 0\<close>, the quantity of the line with the id is set to
  exactly \<open>q\<close> and every other line is as before.
\<close>

theorem updateCartQuantity_semantics:
  assumes "nonNegativeStock state"
  shows "(find (hasId productId) (cart state) = None \<longrightarrow>
            updateCartQuantity productId q state = state) \<and>
         (\<forall>item. find (hasId productId) (cart state) = Some item
              \<and> q > inventory (product item) \<longrightarrow>
            updateCartQuantity productId q state = state) \<and>
         (\<forall>item. find (hasId productId) (cart state) = Some item
              \<and> \<not> q > inventory (product item) \<and> q \<noteq> 0 \<longrightarrow>
            cart (updateCartQuantity productId q state) =
              map (\<lambda>line. if hasId productId line then line\<lparr>quantity := q\<rparr> else line)
                (cart state))"
proof (intro conjI allI impI)
  assume "find (hasId productId) (cart state) = None"
  then show "updateCartQuantity productId q state = state"
    using updateCartQuantity_cases [of productId state q] by blast
next
  fix item
  assume found: "find (hasId productId) (cart state) = Some item
      \<and> q > inventory (product item)"
  then have "item \<in> set (cart state)"
    using find_hasId_Some by blast
  with assms have "0 \<le> inventory (product item)"
    by (simp add: nonNegativeStock_def list_all_iff)
  with found have "q \<noteq> 0" by linarith
  with found show "updateCartQuantity productId q state = state"
    using updateCartQuantity_cases [of productId state q] by blast
next
  fix item
  assume "find (hasId productId) (cart state) = Some item
      \<and> \<not> q > inventory (product item) \<and> q \<noteq> 0"
  then have "find (hasId productId) (cart state) = Some item \<and> q \<noteq> 0
      \<and> q \<le> inventory (product item)"
    by simp
  then show "cart (updateCartQuantity productId q state) =
      map (\<lambda>line. if hasId productId line then line\<lparr>quantity := q\<rparr> else line) (cart state)"
    using updateCartQuantity_cases [of productId state q] by blast
qed

theorem updateCartQuantity_semantics_witness:
  "nonNegativeStock \<lparr>cart = [\<lparr>product = mkProduct ''p1'' 9.99 3, quantity = 1\<rparr>]\<rparr>
   \<and> find (hasId ''p2'') (cart \<lparr>cart = [\<lparr>product = mkProduct ''p1'' 9.99 3, quantity = 1\<rparr>]\<rparr>) = None
   \<and> updateCartQuantity ''p2'' 2 \<lparr>cart = [\<lparr>product = mkProduct ''p1'' 9.99 3, quantity = 1\<rparr>]\<rparr>
       = \<lparr>cart = [\<lparr>product = mkProduct ''p1'' 9.99 3, quantity = 1\<rparr>]\<rparr>
   \<and> find (hasId ''p1'') (cart \<lparr>cart = [\<lparr>product = mkProduct ''p1'' 9.99 3, quantity = 1\<rparr>]\<rparr>)
       = Some \<lparr>product = mkProduct ''p1'' 9.99 3, quantity = 1\<rparr>
   \<and> updateCartQuantity ''p1'' 5 \<lparr>cart = [\<lparr>product = mkProduct ''p1'' 9.99 3, quantity = 1\<rparr>]\<rparr>
       = \<lparr>cart = [\<lparr>product = mkProduct ''p1'' 9.99 3, quantity = 1\<rparr>]\<rparr>
   \<and> cart (updateCartQuantity ''p1'' 2 \<lparr>cart = [\<lparr>product = mkProduct ''p1'' 9.99 3, quantity = 1\<rparr>]\<rparr>)
       = [\<lparr>product = mkProduct ''p1'' 9.99 3, quantity = 2\<rparr>]"
proof -
  let ?line = "\<lparr>product = mkProduct ''p1'' 9.99 3, quantity = 1\<rparr>"
  let ?state = "\<lparr>cart = [?line]\<rparr>"
  have stocked: "nonNegativeStock ?state"
    by (simp add: nonNegativeStock_def mkProduct_def)
  have absent: "find (hasId ''p2'') (cart ?state) = None"
    by (simp add: hasId_def mkProduct_def)
  have present: "find (hasId ''p1'') (cart ?state) = Some ?line"
    by (simp add: hasId_def mkProduct_def)
  have stock: "inventory (product ?line) = 3"
    by (simp add: mkProduct_def)
  from absent updateCartQuantity_semantics [OF stocked, of "''p2''" 2]
  have a: "updateCartQuantity ''p2'' 2 ?state = ?state"
    by blast
  from present stock updateCartQuantity_semantics [OF stocked, of "''p1''" 5]
  have b: "updateCartQuantity ''p1'' 5 ?state = ?state"
    by simp
  from present stock updateCartQuantity_semantics [OF stocked, of "''p1''" 2]
  have c: "cart (updateCartQuantity ''p1'' 2 ?state) = [?line\<lparr>quantity := 2\<rparr>]"
    by (simp add: hasId_def mkProduct_def)
  from stocked absent present a b c show ?thesis by simp
qed

text \<open>
  Claim C4. For every cart state and every product id, \<open>updateCartQuantity id 0\<close> gives
  exactly the state that \<open>removeFromCart id\<close> gives, whether or not a line with that id
  is present.
\<close>

theorem updateCartQuantity_zero_is_remove:
  "updateCartQuantity productId 0 state = removeFromCart productId state"
  by (simp add: updateCartQuantity_def)

lemma updateCartQuantity_below_stock:
  assumes "find (hasId productId) (cart state) = Some item"
    and "q < 0" and "q \<le> inventory (product item)"
  shows "cart (updateCartQuantity productId q state) =
           map (\<lambda>line. if hasId productId line then line\<lparr>quantity := q\<rparr> else line) (cart state)
       \<and> item\<lparr>quantity := q\<rparr> \<in> set (cart (updateCartQuantity productId q state))
       \<and> getCartItemCount (updateCartQuantity productId q state) =
           getCartItemCount (removeFromCart productId state)
             + q * int (length (filter (hasId productId) (cart state)))"
proof -
  from assms have cartEq: "cart (updateCartQuantity productId q state) =
      map (\<lambda>line. if hasId productId line then line\<lparr>quantity := q\<rparr> else line) (cart state)"
    by (simp add: updateCartQuantity_def)
  from assms(1) have "item \<in> set (cart state)" "hasId productId item"
    using find_hasId_Some by blast+
  then have "item\<lparr>quantity := q\<rparr> \<in> set (cart (updateCartQuantity productId q state))"
    unfolding cartEq by force
  moreover have "getCartItemCount (updateCartQuantity productId q state) =
           getCartItemCount (removeFromCart productId state)
             + q * int (length (filter (hasId productId) (cart state)))"
    by (simp add: getCartItemCount_sum cartEq count_after_update removeFromCart_def del: map_map)
  ultimately show ?thesis using cartEq by simp
qed

text \<open>
  Claim C9. For every cart (every stored inventory non-negative, as the catalogue
  guarantees) in which the store finds a line with the id, \<open>updateCartQuantity id q\<close>
  with \<open>q < 0\<close> is accepted: the line is neither removed nor left as it was, but stays
  in the cart with the negative quantity \<open>q\<close>, every other line is as before, and
  \<open>getCartItemCount\<close> is the count of the other lines plus \<open>q\<close> for each line with the
  id.
\<close>

theorem updateCartQuantity_negative:
  assumes "nonNegativeStock state"
    and "find (hasId productId) (cart state) = Some item"
    and "q < 0"
  shows "cart (updateCartQuantity productId q state) =
           map (\<lambda>line. if hasId productId line then line\<lparr>quantity := q\<rparr> else line) (cart state)
       \<and> item\<lparr>quantity := q\<rparr> \<in> set (cart (updateCartQuantity productId q state))
       \<and> getCartItemCount (updateCartQuantity productId q state) =
           getCartItemCount (removeFromCart productId state)
             + q * int (length (filter (hasId productId) (cart state)))"
proof -
  from assms(2) have "item \<in> set (cart state)"
    using find_hasId_Some by blast
  with assms(1) have "0 \<le> inventory (product item)"
    by (simp add: nonNegativeStock_def list_all_iff)
  with assms(3) have "q \<le> inventory (product item)" by linarith
  with assms(2,3) show ?thesis
    by (rule updateCartQuantity_below_stock)
qed

theorem updateCartQuantity_negative_witness:
  "nonNegativeStock
     \<lparr>cart = [\<lparr>product = mkProduct ''p1'' 9.99 3, quantity = 2\<rparr>,
              \<lparr>product = mkProduct ''p2'' 5 4, quantity = 1\<rparr>]\<rparr>
   \<and> find (hasId ''p1'')
     (cart \<lparr>cart = [\<lparr>product = mkProduct ''p1'' 9.99 3, quantity = 2\<rparr>,
                    \<lparr>product = mkProduct ''p2'' 5 4, quantity = 1\<rparr>]\<rparr>)
     = Some \<lparr>product = mkProduct ''p1'' 9.99 3, quantity = 2\<rparr>
   \<and> cart (updateCartQuantity ''p1'' (- 4)
        \<lparr>cart = [\<lparr>product = mkProduct ''p1'' 9.99 3, quantity = 2\<rparr>,
                  \<lparr>product = mkProduct ''p2'' 5 4, quantity = 1\<rparr>]\<rparr>)
     = [\<lparr>product = mkProduct ''p1'' 9.99 3, quantity = - 4\<rparr>,
        \<lparr>product = mkProduct ''p2'' 5 4, quantity = 1\<rparr>]
   \<and> getCartItemCount (updateCartQuantity ''p1'' (- 4)
        \<lparr>cart = [\<lparr>product = mkProduct ''p1'' 9.99 3, quantity = 2\<rparr>,
                  \<lparr>product = mkProduct ''p2'' 5 4, quantity = 1\<rparr>]\<rparr>) = - 3"
proof -
  let ?line = "\<lparr>product = mkProduct ''p1'' 9.99 3, quantity = 2\<rparr>"
  let ?state = "\<lparr>cart = [?line, \<lparr>product = mkProduct ''p2'' 5 4, quantity = 1\<rparr>]\<rparr>"
  have stocked: "nonNegativeStock ?state"
    by (simp add: nonNegativeStock_def mkProduct_def)
  have present: "find (hasId ''p1'') (cart ?state) = Some ?line"
    by (simp add: hasId_def mkProduct_def)
  have negative: "(- 4 :: int) < 0"
    by simp
  from updateCartQuantity_negative [OF stocked present negative] stocked present
  show ?thesis
    by (simp add: hasId_def mkProduct_def removeFromCart_def getCartItemCount_def)
qed

subsection \<open>Adding a product (C6, C7, C10)\<close>

text \<open>
  Claim C6. For every cart state with no line for the id of the argument and every
  product with \<open>inventory > 0\<close>, \<open>addToCart\<close> appends exactly one new line with quantity
  1 after the existing lines, which stay as they are, and \<open>getCartItemCount\<close> grows by 1.
\<close>

theorem addToCart_new_product:
  assumes "\<forall>item \<in> set (cart state). id_product (product item) \<noteq> id_product p"
    and "inventory p > 0"
  shows "cart (addToCart p state) = cart state @ [\<lparr>product = p, quantity = 1\<rparr>]
       \<and> getCartItemCount (addToCart p state) = getCartItemCount state + 1"
proof -
  from assms(1) have "find (hasId (id_product p)) (cart state) = None"
    by (simp add: find_hasId_None hasId_def)
  with assms(2) have "cart (addToCart p state) = cart state @ [\<lparr>product = p, quantity = 1\<rparr>]"
    by (simp add: addToCart_def)
  then show ?thesis
    by (simp add: getCartItemCount_sum)
qed

theorem addToCart_new_product_witness:
  "find (hasId (id_product (mkProduct ''p2'' 5 4)))
     (cart \<lparr>cart = [\<lparr>product = mkProduct ''p1'' 9.99 3, quantity = 2\<rparr>]\<rparr>) = None
   \<and> inventory (mkProduct ''p2'' 5 4) > 0
   \<and> cart (addToCart (mkProduct ''p2'' 5 4)
        \<lparr>cart = [\<lparr>product = mkProduct ''p1'' 9.99 3, quantity = 2\<rparr>]\<rparr>)
     = [\<lparr>product = mkProduct ''p1'' 9.99 3, quantity = 2\<rparr>,
        \<lparr>product = mkProduct ''p2'' 5 4, quantity = 1\<rparr>]
   \<and> getCartItemCount (addToCart (mkProduct ''p2'' 5 4)
        \<lparr>cart = [\<lparr>product = mkProduct ''p1'' 9.99 3, quantity = 2\<rparr>]\<rparr>) = 3"
proof -
  let ?state = "\<lparr>cart = [\<lparr>product = mkProduct ''p1'' 9.99 3, quantity = 2\<rparr>]\<rparr>"
  have fresh: "\<forall>item \<in> set (cart ?state).
      id_product (product item) \<noteq> id_product (mkProduct ''p2'' 5 4)"
    by (simp add: mkProduct_def)
  have stock: "inventory (mkProduct ''p2'' 5 4) > 0"
    by (simp add: mkProduct_def)
  from addToCart_new_product [OF fresh stock] stock show ?thesis
    by (simp add: getCartItemCount_def hasId_def mkProduct_def)
qed

text \<open>
  Claim C7. For every cart state with no line for the id of the argument, \<open>addToCart\<close>
  of a product with \<open>inventory = 0\<close> returns the state it was given. The call has no
  other result: \<open>addToCart\<close> returns nothing and has no \<^verbatim>\<open>throw\<close>, so the state is all
  a caller can observe.
\<close>

theorem addToCart_out_of_stock:
  assumes "\<forall>item \<in> set (cart state). id_product (product item) \<noteq> id_product p"
    and "inventory p = 0"
  shows "addToCart p state = state"
proof -
  from assms(1) have "find (hasId (id_product p)) (cart state) = None"
    by (simp add: find_hasId_None hasId_def)
  with assms(2) show ?thesis
    by (simp add: addToCart_def)
qed

theorem addToCart_out_of_stock_witness:
  "find (hasId (id_product (mkProduct ''p2'' 5 0)))
     (cart \<lparr>cart = [\<lparr>product = mkProduct ''p1'' 9.99 3, quantity = 2\<rparr>]\<rparr>) = None
   \<and> inventory (mkProduct ''p2'' 5 0) = 0
   \<and> addToCart (mkProduct ''p2'' 5 0)
        \<lparr>cart = [\<lparr>product = mkProduct ''p1'' 9.99 3, quantity = 2\<rparr>]\<rparr>
     = \<lparr>cart = [\<lparr>product = mkProduct ''p1'' 9.99 3, quantity = 2\<rparr>]\<rparr>"
proof -
  let ?state = "\<lparr>cart = [\<lparr>product = mkProduct ''p1'' 9.99 3, quantity = 2\<rparr>]\<rparr>"
  have fresh: "\<forall>item \<in> set (cart ?state).
      id_product (product item) \<noteq> id_product (mkProduct ''p2'' 5 0)"
    by (simp add: mkProduct_def)
  have stock: "inventory (mkProduct ''p2'' 5 0) = 0"
    by (simp add: mkProduct_def)
  from addToCart_out_of_stock [OF fresh stock] stock show ?thesis
    by (simp add: hasId_def mkProduct_def)
qed

text \<open>
  Claim C10. No call of the store replaces or changes a stored product record: whatever
  the call, the line the store finds for an id afterwards carries the product record of
  the line it found for that id before. When \<open>addToCart\<close> is called with a record whose
  id is already in the cart, the stored records stay as they are, whatever price or
  inventory the argument has; the call is a no-op when the stored quantity has reached
  the inventory of the argument, and otherwise adds 1 to the quantity, so that
  \<open>getCartTotal\<close> grows by the stored price of the lines with that id.
\<close>

theorem addToCart_keeps_first_snapshot:
  "(\<forall>a productId item item'.
      find (hasId productId) (cart state) = Some item \<and>
      find (hasId productId) (cart (cartStep a state)) = Some item' \<longrightarrow>
      product item' = product item) \<and>
   (\<forall>item. find (hasId (id_product p)) (cart state) = Some item \<longrightarrow>
      map product (cart (addToCart p state)) = map product (cart state) \<and>
      (if quantity item \<ge> inventory p then addToCart p state = state
       else cart (addToCart p state) =
              map (\<lambda>line. if hasId (id_product p) line
                           then line\<lparr>quantity := quantity line + 1\<rparr> else line) (cart state)
          \<and> getCartTotal (addToCart p state) =
              getCartTotal state
                + sum_list (map (\<lambda>line. price (product line))
                    (filter (hasId (id_product p)) (cart state)))))"
proof (intro conjI allI impI)
  fix a productId item item'
  assume "find (hasId productId) (cart state) = Some item \<and>
      find (hasId productId) (cart (cartStep a state)) = Some item'"
  then show "product item' = product item"
    using cartStep_keeps_snapshot by blast
next
  fix item
  assume found: "find (hasId (id_product p)) (cart state) = Some item"
  have prods: "map product
      (map (\<lambda>line. if hasId (id_product p) line
                   then line\<lparr>quantity := quantity line + 1\<rparr> else line) (cart state))
      = map product (cart state)"
    by (simp add: comp_def if_distrib [of product] cong: if_cong)
  show "map product (cart (addToCart p state)) = map product (cart state)"
    using found prods by (simp add: addToCart_def del: map_map)
  show "if quantity item \<ge> inventory p then addToCart p state = state
       else cart (addToCart p state) =
              map (\<lambda>line. if hasId (id_product p) line
                           then line\<lparr>quantity := quantity line + 1\<rparr> else line) (cart state)
          \<and> getCartTotal (addToCart p state) =
              getCartTotal state
                + sum_list (map (\<lambda>line. price (product line))
                    (filter (hasId (id_product p)) (cart state)))"
    using found
    by (simp add: addToCart_def getCartTotal_sum total_after_increment del: map_map)
qed

theorem addToCart_keeps_first_snapshot_witness:
  "find (hasId (id_product (mkProduct ''p1'' 20 5)))
     (cart \<lparr>cart = [\<lparr>product = mkProduct ''p1'' 9.99 1, quantity = 1\<rparr>]\<rparr>)
     = Some \<lparr>product = mkProduct ''p1'' 9.99 1, quantity = 1\<rparr>
   \<and> cart (addToCart (mkProduct ''p1'' 20 5)
        \<lparr>cart = [\<lparr>product = mkProduct ''p1'' 9.99 1, quantity = 1\<rparr>]\<rparr>)
     = [\<lparr>product = mkProduct ''p1'' 9.99 1, quantity = 2\<rparr>]
   \<and> getCartTotal (addToCart (mkProduct ''p1'' 20 5)
        \<lparr>cart = [\<lparr>product = mkProduct ''p1'' 9.99 1, quantity = 1\<rparr>]\<rparr>) = 19.98"
proof -
  let ?line = "\<lparr>product = mkProduct ''p1'' 9.99 1, quantity = 1\<rparr>"
  let ?state = "\<lparr>cart = [?line]\<rparr>"
  have present: "find (hasId (id_product (mkProduct ''p1'' 20 5))) (cart ?state) = Some ?line"
    by (simp add: hasId_def mkProduct_def)
  have room: "\<not> quantity ?line \<ge> inventory (mkProduct ''p1'' 20 5)"
    by (simp add: mkProduct_def)
  from addToCart_keeps_first_snapshot [of ?state "mkProduct ''p1'' 20 5"] present room
  have "cart (addToCart (mkProduct ''p1'' 20 5) ?state) =
          map (\<lambda>line. if hasId (id_product (mkProduct ''p1'' 20 5)) line
                       then line\<lparr>quantity := quantity line + 1\<rparr> else line) (cart ?state)
      \<and> getCartTotal (addToCart (mkProduct ''p1'' 20 5) ?state) =
          getCartTotal ?state
            + sum_list (map (\<lambda>line. price (product line))
                (filter (hasId (id_product (mkProduct ''p1'' 20 5))) (cart ?state)))"
    by presburger
  with present show ?thesis
    by (simp add: hasId_def mkProduct_def getCartTotal_def)
qed

section \<open>Properties of the auth store\<close>

subsection \<open>What each action does to the in-memory state\<close>

lemma loginUser_store:
  "store (loginUser pf tok u w) =
     (case fst (multiSet pf (userEntries pf tok u) (storage w)) of
        Fulfilled x \<Rightarrow> (store w)\<lparr>isLoggedIn := True, token := Some tok, user := Some u,
                                admin := None, userType := Some CustomerT\<rparr>
      | Rejected err \<Rightarrow> store w)"
  by (auto simp: loginUser_def split: prod.splits Promise.splits)

lemma loginAdmin_store:
  "store (loginAdmin pf tok a w) =
     (case fst (multiSet pf (adminEntries pf tok a) (storage w)) of
        Fulfilled x \<Rightarrow> (store w)\<lparr>isLoggedIn := True, token := Some tok, admin := Some a,
                                user := None, userType := Some AdminT\<rparr>
      | Rejected err \<Rightarrow> store w)"
  by (auto simp: loginAdmin_def split: prod.splits Promise.splits)



subsection \<open>The stand-in codec reads back what it wrote\<close>

lemma takeWhile_plus_prefix:
  "takeWhile (\<lambda>c. c = CHR ''+'') (replicate n CHR ''+'' @ CHR ''|'' # rest) = replicate n CHR ''+''"
  by (induction n) simp_all

lemma decodeFields_encodeFields:
  "decodeFields (length fs) (encodeFields fs) = Some fs"
  by (induction fs) (simp_all add: takeWhile_plus_prefix)

lemma encodeFields_not_null: "encodeFields (f # fs) \<noteq> ''null''"
  by (cases f) simp_all

lemma standInParseUser_stringify: "standInParseUser (standInStringifyUser u) = Inr (Some u)"
  using decodeFields_encodeFields [of "[id_user u, name_user u, phone u]"]
  by (simp add: standInParseUser_def standInStringifyUser_def encodeFields_not_null
      del: encodeFields.simps decodeFields.simps)

lemma standInParseAdmin_stringify: "standInParseAdmin (standInStringifyAdmin a) = Inr (Some a)"
  using decodeFields_encodeFields [of "[id_admin a, username a, full_name a]"]
  by (simp add: standInParseAdmin_def standInStringifyAdmin_def encodeFields_not_null
      del: encodeFields.simps decodeFields.simps)

subsection \<open>Every action keeps the shape of the session\<close>









subsection \<open>Whatever the storage holds, the identities stay exclusive\<close>








subsection \<open>Login and the storage write (C2, C8)\<close>

text \<open>
  Claim C2. If the storage write of \<open>loginUser\<close> is rejected, the in-memory state after
  the call is exactly the state before it, and the same holds for \<open>loginAdmin\<close>: the
  call of \<^verbatim>\<open>set\<close> follows the awaited write inside the same \<^verbatim>\<open>try\<close>, so a rejection
  skips it. This holds for every platform, whatever the rejected write leaves in storage.
\<close>

theorem login_write_failure_keeps_state:
  "(fst (multiSet pf (userEntries pf tok u) (storage w)) = Rejected err \<longrightarrow>
      store (loginUser pf tok u w) = store w) \<and>
   (fst (multiSet pf (adminEntries pf tok' a) (storage w)) = Rejected err' \<longrightarrow>
      store (loginAdmin pf tok' a w) = store w)"
  by (simp add: loginUser_store loginAdmin_store)

theorem login_write_failure_keeps_state_witness:
  "fst (multiSet rejectingPlatform
          (userEntries rejectingPlatform ''t1'' \<lparr>id_user = ''u1'', name_user = ''Ann'', phone = ''555''\<rparr>)
          (storage (initialWorld Map.empty))) = Rejected ''storage unavailable''
   \<and> store (loginUser rejectingPlatform ''t1''
        \<lparr>id_user = ''u1'', name_user = ''Ann'', phone = ''555''\<rparr> (initialWorld Map.empty))
     = initialAuthStore
   \<and> fst (multiSet rejectingPlatform
          (adminEntries rejectingPlatform ''t2'' \<lparr>id_admin = ''a1'', username = ''root'', full_name = ''Bo''\<rparr>)
          (storage (loginUser keepingPlatform ''t1''
             \<lparr>id_user = ''u1'', name_user = ''Ann'', phone = ''555''\<rparr> (initialWorld Map.empty))))
     = Rejected ''storage unavailable''
   \<and> store (loginAdmin rejectingPlatform ''t2''
        \<lparr>id_admin = ''a1'', username = ''root'', full_name = ''Bo''\<rparr>
        (loginUser keepingPlatform ''t1''
           \<lparr>id_user = ''u1'', name_user = ''Ann'', phone = ''555''\<rparr> (initialWorld Map.empty)))
     = \<lparr>isLoggedIn = True,
        user = Some \<lparr>id_user = ''u1'', name_user = ''Ann'', phone = ''555''\<rparr>,
        admin = None, token = Some ''t1'', userType = Some CustomerT\<rparr>"
proof -
  let ?u = "\<lparr>id_user = ''u1'', name_user = ''Ann'', phone = ''555''\<rparr>"
  let ?a = "\<lparr>id_admin = ''a1'', username = ''root'', full_name = ''Bo''\<rparr>"
  let ?w = "initialWorld Map.empty"
  let ?w' = "loginUser keepingPlatform ''t1'' ?u ?w"
  have ru: "fst (multiSet rejectingPlatform (userEntries rejectingPlatform ''t1'' ?u) (storage ?w))
      = Rejected ''storage unavailable''"
    by (simp add: rejectingPlatform_def)
  have ra: "fst (multiSet rejectingPlatform (adminEntries rejectingPlatform ''t2'' ?a) (storage ?w'))
      = Rejected ''storage unavailable''"
    by (simp add: rejectingPlatform_def)
  have before: "store ?w' = \<lparr>isLoggedIn = True, user = Some ?u, admin = None,
      token = Some ''t1'', userType = Some CustomerT\<rparr>"
    by (simp add: loginUser_def keepingPlatform_def initialWorld_def initialAuthStore_def
        userEntries_def)
  from ru
    login_write_failure_keeps_state [of rejectingPlatform "''t1''" ?u ?w "''storage unavailable''"
      "''t2''" ?a "''storage unavailable''"]
  have first: "store (loginUser rejectingPlatform ''t1'' ?u ?w) = initialAuthStore"
    by (simp add: initialWorld_def)
  from ra
    login_write_failure_keeps_state [of rejectingPlatform "''t1''" ?u ?w' "''storage unavailable''"
      "''t2''" ?a "''storage unavailable''"]
  have second: "store (loginAdmin rejectingPlatform ''t2'' ?a ?w') = store ?w'"
    by blast
  from ru ra first second before show ?thesis by simp
qed

text \<open>
  Claim C8. When the storage writes succeed, after \<open>loginUser tok user\<close> the predicate
  \<open>isCustomer\<close> holds and \<open>isAdmin\<close> does not (and the user record is the one passed);
  after a following \<open>loginAdmin tok' admin\<close>, \<open>isAdmin\<close> holds, \<open>isCustomer\<close> does not,
  and the stored user record is \<^verbatim>\<open>null\<close>.
\<close>

theorem login_predicates:
  assumes "fst (multiSet pf (userEntries pf tok u) (storage w)) = Fulfilled ()"
    and "fst (multiSet pf (adminEntries pf tok' a) (storage (loginUser pf tok u w))) = Fulfilled ()"
  shows "isCustomer (store (loginUser pf tok u w))
       \<and> \<not> isAdmin (store (loginUser pf tok u w))
       \<and> user (store (loginUser pf tok u w)) = Some u
       \<and> \<not> isCustomer (store (loginAdmin pf tok' a (loginUser pf tok u w)))
       \<and> isAdmin (store (loginAdmin pf tok' a (loginUser pf tok u w)))
       \<and> user (store (loginAdmin pf tok' a (loginUser pf tok u w))) = None"
  using assms by (simp add: loginUser_store loginAdmin_store isCustomer_def isAdmin_def)

theorem login_predicates_witness:
  "fst (multiSet keepingPlatform
          (userEntries keepingPlatform ''t1'' \<lparr>id_user = ''u1'', name_user = ''Ann'', phone = ''555''\<rparr>)
          (storage (initialWorld Map.empty))) = Fulfilled ()
   \<and> isCustomer (store (loginUser keepingPlatform ''t1''
        \<lparr>id_user = ''u1'', name_user = ''Ann'', phone = ''555''\<rparr> (initialWorld Map.empty)))
   \<and> isAdmin (store (loginAdmin keepingPlatform ''t2''
        \<lparr>id_admin = ''a1'', username = ''root'', full_name = ''Bo''\<rparr>
        (loginUser keepingPlatform ''t1''
           \<lparr>id_user = ''u1'', name_user = ''Ann'', phone = ''555''\<rparr> (initialWorld Map.empty))))
   \<and> user (store (loginAdmin keepingPlatform ''t2''
        \<lparr>id_admin = ''a1'', username = ''root'', full_name = ''Bo''\<rparr>
        (loginUser keepingPlatform ''t1''
           \<lparr>id_user = ''u1'', name_user = ''Ann'', phone = ''555''\<rparr> (initialWorld Map.empty))))
     = None"
proof -
  let ?u = "\<lparr>id_user = ''u1'', name_user = ''Ann'', phone = ''555''\<rparr>"
  let ?a = "\<lparr>id_admin = ''a1'', username = ''root'', full_name = ''Bo''\<rparr>"
  let ?w = "initialWorld Map.empty"
  have first: "fst (multiSet keepingPlatform (userEntries keepingPlatform ''t1'' ?u) (storage ?w))
      = Fulfilled ()"
    by (simp add: keepingPlatform_def)
  have second: "fst (multiSet keepingPlatform (adminEntries keepingPlatform ''t2'' ?a)
        (storage (loginUser keepingPlatform ''t1'' ?u ?w))) = Fulfilled ()"
    by (simp add: keepingPlatform_def)
  from login_predicates [OF first second] first show ?thesis
    by simp
qed

subsection \<open>One identity at a time (C5)\<close>




end
